theory Spec2Isabelle
  imports Complex_Main "HOL-Library.Char_ord" "HOL-Library.List_Lexorder"
begin

section \<open>Search requests and the query compiler\<close>

text \<open>
  The TypeScript type \<open>number\<close> is used for pagination offsets and sizes and for a few
  work-item fields that are only passed through. Every value that a JSON body can carry is a
  finite decimal, so numbers are modelled as rationals.

  Strings are Isabelle strings; a character stands for one code unit below 256. Code units
  outside that range are not represented.
\<close>

type_synonym number = rat

subsection \<open>The request types (\<open>SearchQuery\<close> and the schema input)\<close>

datatype sort_order = asc | desc

record date_range =
  dr_field :: string
  dr_from :: "string option"
  dr_to :: "string option"

record search_filters =
  f_type :: "string list option"
  f_workItemType :: "string list option"
  f_status :: "string list option"
  f_priority :: "string list option"
  f_assignedTo :: "string list option"
  f_tags :: "string list option"
  f_dateRange :: "date_range option"

record sort_spec =
  s_field :: string
  s_order :: sort_order

record pagination =
  p_from :: number
  p_size :: number

record search_query =
  q_query :: string
  q_filters :: "search_filters option"
  q_sort :: "sort_spec list option"
  q_pagination :: "pagination option"
  q_tenantId :: string
  q_userId :: string
  q_userRole :: string

subsection \<open>JavaScript truthiness and \<open>String.prototype.trim\<close>\<close>

text \<open>
  The white space and line terminator code units below 256 that \<open>trim\<close> removes:
  TAB, LF, VT, FF, CR, SPACE and NO-BREAK SPACE.
\<close>

definition is_js_whitespace :: "char \<Rightarrow> bool" where
  "is_js_whitespace c \<longleftrightarrow>
     of_char c \<in> {9::nat, 10, 11, 12, 13, 32, 160}"

definition trim :: "string \<Rightarrow> string" where
  "trim s = rev (dropWhile is_js_whitespace (rev (dropWhile is_js_whitespace s)))"

text \<open>A string is truthy when it is not empty; \<open>undefined\<close> is falsy.\<close>

definition truthy :: "string \<Rightarrow> bool" where
  "truthy s \<longleftrightarrow> s \<noteq> []"

definition truthy_opt :: "string option \<Rightarrow> bool" where
  "truthy_opt v = (case v of None \<Rightarrow> False | Some s \<Rightarrow> truthy s)"

text \<open>\<open>xs && xs.length > 0\<close> for an optional array.\<close>

definition nonempty_opt :: "'a list option \<Rightarrow> bool" where
  "nonempty_opt v = (case v of None \<Rightarrow> False | Some xs \<Rightarrow> length xs > 0)"

subsection \<open>The compiled query\<close>

text \<open>
  The clauses that \<open>buildSearchQuery\<close> emits. A field of a \<open>multi_match\<close> written
  \<open>name^boost\<close> in the source is the pair of the name and the boost.
\<close>

datatype clause =
    Term string string
  | Terms string "string list"
  | Range string "string option" "string option"
  | MultiMatch string "(string \<times> number) list" string string
  | MatchAll

record search_body =
  bool_must :: "clause list"
  bool_filter :: "clause list"
  highlight_fields :: "string list"
  aggregations :: "(string \<times> string) list"
  sort_by :: "(string \<times> sort_order) list"
  from_offset :: "number option"
  size_limit :: number

definition terms_filter :: "string \<Rightarrow> string list option \<Rightarrow> clause list" where
  "terms_filter name v = (if nonempty_opt v then [Terms name (the v)] else [])"

definition date_filter :: "date_range \<Rightarrow> clause" where
  "date_filter r =
     Range (dr_field r)
       (if truthy_opt (dr_from r) then dr_from r else None)
       (if truthy_opt (dr_to r) then dr_to r else None)"

definition facet_filters :: "search_filters \<Rightarrow> clause list" where
  "facet_filters f =
     terms_filter ''type'' (f_type f) @
     terms_filter ''workItemType'' (f_workItemType f) @
     terms_filter ''status'' (f_status f) @
     terms_filter ''priority'' (f_priority f) @
     terms_filter ''assignedTo'' (f_assignedTo f) @
     terms_filter ''tags'' (f_tags f) @
     (case f_dateRange f of None \<Rightarrow> [] | Some r \<Rightarrow> [date_filter r])"

definition buildSearchQuery :: "search_query \<Rightarrow> search_body" where
  "buildSearchQuery q =
     (let filterClauses0 = [Term ''tenantId'' (q_tenantId q)];
          mustClauses =
            (if truthy (q_query q) \<and> truthy (trim (q_query q))
             then [MultiMatch (q_query q)
                     [(''title'', 3), (''content'', 2), (''tags'', 3 / 2)]
                     ''best_fields'' ''AUTO'']
             else [MatchAll]);
          filterClauses =
            (case q_filters q of
               None \<Rightarrow> filterClauses0
             | Some f \<Rightarrow> filterClauses0 @ facet_filters f)
      in \<lparr> bool_must = mustClauses,
           bool_filter = filterClauses,
           highlight_fields = [''title'', ''content''],
           aggregations =
             [(''types'', ''type''), (''statuses'', ''status''), (''priorities'', ''priority'')],
           sort_by =
             (if nonempty_opt (q_sort q)
              then map (\<lambda>s. (s_field s, s_order s)) (the (q_sort q))
              else [(''_score'', desc), (''updatedAt'', desc)]),
           from_offset =
             (case q_pagination q of None \<Rightarrow> None | Some p \<Rightarrow> Some (p_from p)),
           size_limit =
             (case q_pagination q of None \<Rightarrow> 20 | Some p \<Rightarrow> p_size p) \<rparr>)"

definition allIndices :: "string list" where
  "allIndices = [''work_items'', ''users'', ''templates'']"

definition full_index :: "string \<Rightarrow> string \<Rightarrow> string" where
  "full_index indexPrefix name = indexPrefix @ ''_'' @ name"

definition getSearchIndices :: "string \<Rightarrow> string list option \<Rightarrow> string list" where
  "getSearchIndices indexPrefix types =
     (if \<not> nonempty_opt types then map (full_index indexPrefix) allIndices
      else
        (let ts = the types;
             indices =
               (if ''work_item'' \<in> set ts then [full_index indexPrefix ''work_items''] else []) @
               (if ''user'' \<in> set ts then [full_index indexPrefix ''users''] else []) @
               (if ''template'' \<in> set ts then [full_index indexPrefix ''templates''] else [])
         in if length indices > 0 then indices
            else map (full_index indexPrefix) allIndices))"

text \<open>
  The request that \<open>ElasticsearchService.search\<close> sends to the engine: the indices to
  search and the compiled body.
\<close>

definition search_request :: "string \<Rightarrow> search_query \<Rightarrow> string list \<times> search_body" where
  "search_request indexPrefix q =
     (getSearchIndices indexPrefix
        (case q_filters q of None \<Rightarrow> None | Some f \<Rightarrow> f_type f),
      buildSearchQuery q)"

subsection \<open>Request validation (\<open>SearchQuerySchema\<close>) and the controller\<close>

text \<open>
  The body of a search request before validation. Only the values that the schema can
  default or reject are optional here: the free text, and the two pagination numbers.
\<close>

record raw_pagination =
  rp_from :: "number option"
  rp_size :: "number option"

record raw_request =
  r_query :: "string option"
  r_filters :: "search_filters option"
  r_sort :: "sort_spec list option"
  r_pagination :: "raw_pagination option"

record validated_query =
  v_query :: string
  v_filters :: "search_filters option"
  v_sort :: "sort_spec list option"
  v_pagination :: "pagination option"

datatype zod_issue = TooSmall "string list" | TooBig "string list"

text \<open>
  \<open>from: z.number().min(0).default(0)\<close> and \<open>size: z.number().min(1).max(100).default(20)\<close>:
  a missing number takes its default, every failed check adds an issue, and the object is
  accepted when there is no issue.
\<close>

definition pagination_issues :: "pagination \<Rightarrow> zod_issue list" where
  "pagination_issues p =
     (if p_from p < 0 then [TooSmall [''pagination'', ''from'']] else []) @
     (if p_size p < 1 then [TooSmall [''pagination'', ''size'']]
      else if p_size p > 100 then [TooBig [''pagination'', ''size'']] else [])"

definition parse_pagination :: "raw_pagination \<Rightarrow> zod_issue list + pagination" where
  "parse_pagination rp =
     (let p = \<lparr> p_from = (case rp_from rp of None \<Rightarrow> 0 | Some n \<Rightarrow> n),
                 p_size = (case rp_size rp of None \<Rightarrow> 20 | Some n \<Rightarrow> n) \<rparr>
      in if pagination_issues p = [] then Inr p else Inl (pagination_issues p))"

definition SearchQuerySchema_parse :: "raw_request \<Rightarrow> zod_issue list + validated_query" where
  "SearchQuerySchema_parse r =
     (case r_pagination r of
        None \<Rightarrow>
          Inr \<lparr> v_query = (case r_query r of None \<Rightarrow> [] | Some s \<Rightarrow> s),
                v_filters = r_filters r, v_sort = r_sort r, v_pagination = None \<rparr>
      | Some rp \<Rightarrow>
          (case parse_pagination rp of
             Inl issues \<Rightarrow> Inl issues
           | Inr p \<Rightarrow>
               Inr \<lparr> v_query = (case r_query r of None \<Rightarrow> [] | Some s \<Rightarrow> s),
                     v_filters = r_filters r, v_sort = r_sort r,
                     v_pagination = Some p \<rparr>))"

record jwt_payload =
  jwt_userId :: string
  jwt_role :: string
  jwt_tenantId :: string

datatype http_error = BadRequest "zod_issue list" | Unauthorized

text \<open>
  \<open>SearchController.search\<close> up to the call of the search service: the body is validated
  first, then the authenticated user is required, and the query handed to the service takes
  its tenant, user and role from the token.
\<close>

definition controller_search :: "jwt_payload option \<Rightarrow> raw_request \<Rightarrow> http_error + search_query" where
  "controller_search user body =
     (case SearchQuerySchema_parse body of
        Inl issues \<Rightarrow> Inl (BadRequest issues)
      | Inr v \<Rightarrow>
          (case user of
             None \<Rightarrow> Inl Unauthorized
           | Some u \<Rightarrow>
               Inr \<lparr> q_query = v_query v, q_filters = v_filters v, q_sort = v_sort v,
                     q_pagination = v_pagination v,
                     q_tenantId = jwt_tenantId u, q_userId = jwt_userId u,
                     q_userRole = jwt_role u \<rparr>))"

section \<open>Documents and the document mapper\<close>

text \<open>
  The work-item snapshot carried by \<open>work_item.created\<close> and \<open>work_item.updated\<close>. A field
  that the mapper tests or defaults is optional; \<open>None\<close> is a missing property.
\<close>

record work_item =
  wi_id :: string
  tenant_id :: string
  wi_title :: string
  description :: "string option"
  wi_type :: string
  wi_status :: string
  wi_priority :: string
  assigned_to :: "string option"
  parent_id :: "string option"
  wi_tags :: "string list option"
  wi_dependencies :: "string list option"
  wi_lineage :: "string list option"
  wi_progress :: "number option"
  created_at :: string
  updated_at :: string
  due_date :: "string option"
  created_by :: "string option"
  estimated_hours :: "number option"
  actual_hours :: "number option"
  completion_date :: "string option"

record work_item_metadata =
  estimatedHours :: "number option"
  actualHours :: "number option"
  completionDate :: "string option"

record work_item_document =
  doc_id :: string
  doc_type :: string
  tenantId :: string
  title :: string
  content :: string
  workItemType :: string
  status :: string
  priority :: string
  assignedTo :: "string option"
  parentId :: "string option"
  tags :: "string list"
  dependencies :: "string list"
  lineage :: "string list"
  progress :: "number option"
  createdAt :: string
  updatedAt :: string
  dueDate :: "string option"
  createdBy :: "string option"
  permissions :: "string list"
  metadata :: work_item_metadata

definition calculatePermissions :: "work_item \<Rightarrow> string list" where
  "calculatePermissions workItem =
     [''tenant:'' @ tenant_id workItem] @
     (if truthy_opt (assigned_to workItem) then [''user:'' @ the (assigned_to workItem)] else []) @
     (if truthy_opt (created_by workItem) then [''user:'' @ the (created_by workItem)] else []) @
     [''role:CEO'', ''role:President'', ''role:VP'', ''role:Director'', ''role:Manager'']"

text \<open>The object literal built by \<open>reindexWorkItem\<close>.\<close>

definition workItemDocument :: "work_item \<Rightarrow> work_item_document" where
  "workItemDocument workItem =
     \<lparr> doc_id = wi_id workItem,
       doc_type = ''work_item'',
       tenantId = tenant_id workItem,
       title = wi_title workItem,
       content = (if truthy_opt (description workItem) then the (description workItem) else []),
       workItemType = wi_type workItem,
       status = wi_status workItem,
       priority = wi_priority workItem,
       assignedTo = assigned_to workItem,
       parentId = parent_id workItem,
       tags = (case wi_tags workItem of None \<Rightarrow> [] | Some ts \<Rightarrow> ts),
       dependencies = (case wi_dependencies workItem of None \<Rightarrow> [] | Some ds \<Rightarrow> ds),
       lineage = (case wi_lineage workItem of None \<Rightarrow> [] | Some ls \<Rightarrow> ls),
       progress = wi_progress workItem,
       createdAt = created_at workItem,
       updatedAt = updated_at workItem,
       dueDate = due_date workItem,
       createdBy = created_by workItem,
       permissions = calculatePermissions workItem,
       metadata = \<lparr> estimatedHours = estimated_hours workItem,
                    actualHours = actual_hours workItem,
                    completionDate = completion_date workItem \<rparr> \<rparr>"

text \<open>The user snapshot of \<open>user.created\<close> and \<open>user.updated\<close>, and its document.\<close>

record user =
  u_id :: string
  u_tenant_id :: string
  u_name :: string
  u_email :: string
  u_role :: string
  u_department :: "string option"
  u_tags :: "string list option"
  u_created_at :: string
  u_updated_at :: "string option"
  u_created_by :: "string option"
  u_last_login :: "string option"
  u_is_active :: "bool option"

record user_document =
  ud_id :: string
  ud_type :: string
  ud_tenantId :: string
  ud_title :: string
  ud_content :: string
  ud_email :: string
  ud_role :: string
  ud_department :: "string option"
  ud_tags :: "string list"
  ud_permissions :: "string list"
  ud_createdAt :: string
  ud_updatedAt :: string
  ud_createdBy :: string
  ud_lastLogin :: "string option"
  ud_isActive :: "bool option"

definition userDocument :: "string \<Rightarrow> user \<Rightarrow> user_document" where
  "userDocument now u =
     \<lparr> ud_id = u_id u,
       ud_type = ''user'',
       ud_tenantId = u_tenant_id u,
       ud_title = u_name u,
       ud_content = u_name u @ '' '' @ u_email u @ '' '' @ u_role u,
       ud_email = u_email u,
       ud_role = u_role u,
       ud_department = u_department u,
       ud_tags = (case u_tags u of None \<Rightarrow> [] | Some ts \<Rightarrow> ts),
       ud_permissions = [''tenant:'' @ u_tenant_id u, ''user:'' @ u_id u],
       ud_createdAt = u_created_at u,
       ud_updatedAt = (if truthy_opt (u_updated_at u) then the (u_updated_at u) else now),
       ud_createdBy = (if truthy_opt (u_created_by u) then the (u_created_by u) else ''system''),
       ud_lastLogin = u_last_login u,
       ud_isActive = u_is_active u \<rparr>"

datatype document = WorkItemDocument work_item_document | UserDocument user_document

definition document_id :: "document \<Rightarrow> string" where
  "document_id d = (case d of WorkItemDocument w \<Rightarrow> doc_id w | UserDocument u \<Rightarrow> ud_id u)"

section \<open>The index gateway\<close>

text \<open>
  The search engine is reached through its client. Its state is the documents of every
  index, by index name and document id, and the requests issued to it so far. Creating or
  replacing a document by id always succeeds on a reachable engine; a partial update and a
  delete of an id that the index does not hold are answered with status 404, which the
  client raises as a response error. A transport fault makes the call fail and leaves
  the documents as they were.
\<close>

datatype error = SyntaxError | TypeError | ResponseError nat | ConnectionError

datatype request =
    IndexRequest string string
  | UpdateRequest string string
  | DeleteRequest string string

record engine =
  docs :: "string \<Rightarrow> string \<rightharpoonup> document"
  requests :: "request list"

record partial_document =
  pd_status :: "string option"
  pd_updatedAt :: "string option"

text \<open>
  The merge of a partial document into a stored one. A property whose value is
  \<open>undefined\<close> is not sent. A user document has no status: the handlers of this service
  update documents of the work-item index only.
\<close>

definition merge_document :: "partial_document \<Rightarrow> document \<Rightarrow> document" where
  "merge_document p d =
     (case d of
        WorkItemDocument w \<Rightarrow>
          WorkItemDocument
            (w\<lparr> status := (case pd_status p of None \<Rightarrow> status w | Some s \<Rightarrow> s),
                updatedAt := (case pd_updatedAt p of None \<Rightarrow> updatedAt w | Some t \<Rightarrow> t) \<rparr>)
      | UserDocument u \<Rightarrow>
          UserDocument
            (u\<lparr> ud_updatedAt := (case pd_updatedAt p of None \<Rightarrow> ud_updatedAt u | Some t \<Rightarrow> t) \<rparr>))"

definition client_index ::
  "error option \<Rightarrow> engine \<Rightarrow> string \<Rightarrow> string \<Rightarrow> document \<Rightarrow> error option \<times> engine" where
  "client_index fault e index i body =
     (let e' = e\<lparr> requests := requests e @ [IndexRequest index i] \<rparr>
      in case fault of
           Some err \<Rightarrow> (Some err, e')
         | None \<Rightarrow> (None, e'\<lparr> docs := (docs e)(index := (docs e index)(i \<mapsto> body)) \<rparr>))"

definition client_update ::
  "error option \<Rightarrow> engine \<Rightarrow> string \<Rightarrow> string \<Rightarrow> partial_document \<Rightarrow> error option \<times> engine" where
  "client_update fault e index i doc =
     (let e' = e\<lparr> requests := requests e @ [UpdateRequest index i] \<rparr>
      in case fault of
           Some err \<Rightarrow> (Some err, e')
         | None \<Rightarrow>
             (case docs e index i of
                None \<Rightarrow> (Some (ResponseError 404), e')
              | Some d \<Rightarrow>
                  (None, e'\<lparr> docs := (docs e)(index := (docs e index)(i \<mapsto> merge_document doc d)) \<rparr>)))"

definition client_delete ::
  "error option \<Rightarrow> engine \<Rightarrow> string \<Rightarrow> string \<Rightarrow> error option \<times> engine" where
  "client_delete fault e index i =
     (let e' = e\<lparr> requests := requests e @ [DeleteRequest index i] \<rparr>
      in case fault of
           Some err \<Rightarrow> (Some err, e')
         | None \<Rightarrow>
             (case docs e index i of
                None \<Rightarrow> (Some (ResponseError 404), e')
              | Some d \<Rightarrow> (None, e'\<lparr> docs := (docs e)(index := (docs e index)(i := None)) \<rparr>)))"

text \<open>
  The environment of one call: the configured index prefix, the transport fault that the
  engine call of this handling meets (if any), and the clock as read by the message handler
  and by the gateway.
\<close>

record env =
  indexPrefix :: string
  fault :: "error option"
  now_handler :: string
  now_gateway :: string

text \<open>
  The gateway methods return the error they raise (\<open>None\<close> when they return normally)
  and the engine afterwards. Each catches the client's error, logs it and throws it again.
\<close>

definition indexDocument :: "env \<Rightarrow> engine \<Rightarrow> string \<Rightarrow> document \<Rightarrow> error option \<times> engine" where
  "indexDocument env e indexName d =
     client_index (fault env) e (full_index (indexPrefix env) indexName) (document_id d) d"

definition updateDocument ::
  "env \<Rightarrow> engine \<Rightarrow> string \<Rightarrow> string \<Rightarrow> partial_document \<Rightarrow> error option \<times> engine" where
  "updateDocument env e indexName documentId updates =
     client_update (fault env) e (full_index (indexPrefix env) indexName) documentId
       (updates\<lparr> pd_updatedAt := Some (now_gateway env) \<rparr>)"

definition deleteDocument :: "env \<Rightarrow> engine \<Rightarrow> string \<Rightarrow> string \<Rightarrow> error option \<times> engine" where
  "deleteDocument env e indexName documentId =
     client_delete (fault env) e (full_index (indexPrefix env) indexName) documentId"

definition reindexWorkItem :: "env \<Rightarrow> engine \<Rightarrow> work_item \<Rightarrow> error option \<times> engine" where
  "reindexWorkItem env e workItem =
     indexDocument env e ''work_items'' (WorkItemDocument (workItemDocument workItem))"

section \<open>The event consumer\<close>

text \<open>
  A message is its routing key and its content. The content is given by what
  \<open>JSON.parse\<close> makes of it: a syntax error, \<open>null\<close>, or a value whose properties can be
  read. A property that the value does not have is \<open>None\<close>; a JSON number, string, boolean
  or array has none of the properties below.
\<close>

record event_data =
  ed_workItem :: "work_item option"
  ed_workItemId :: "string option"
  ed_newStatus :: "string option"
  ed_user :: "user option"
  ed_userId :: "string option"

datatype payload = Unparseable | Null | Object event_data

record message =
  routingKey :: string
  msg_content :: payload

text \<open>
  The \<open>try\<close> block of \<open>handleWorkItemEvent\<close>. Reading a property of \<open>null\<close> or of
  \<open>undefined\<close> is a type error, and so is a missing id handed to the client, which raises
  before it sends anything.
\<close>

definition handleWorkItemEvent_try :: "env \<Rightarrow> engine \<Rightarrow> message \<Rightarrow> error option \<times> engine" where
  "handleWorkItemEvent_try env e msg =
     (case msg_content msg of
        Unparseable \<Rightarrow> (Some SyntaxError, e)
      | Null \<Rightarrow>
          (if routingKey msg = ''work_item.created'' \<or> routingKey msg = ''work_item.updated''
              \<or> routingKey msg = ''work_item.deleted''
              \<or> routingKey msg = ''work_item.status_changed''
           then (Some TypeError, e) else (None, e))
      | Object eventData \<Rightarrow>
          (if routingKey msg = ''work_item.created'' \<or> routingKey msg = ''work_item.updated''
           then (case ed_workItem eventData of
                   None \<Rightarrow> (Some TypeError, e)
                 | Some workItem \<Rightarrow> reindexWorkItem env e workItem)
           else if routingKey msg = ''work_item.deleted''
           then (case ed_workItemId eventData of
                   None \<Rightarrow> (Some TypeError, e)
                 | Some workItemId \<Rightarrow> deleteDocument env e ''work_items'' workItemId)
           else if routingKey msg = ''work_item.status_changed''
           then (case ed_workItemId eventData of
                   None \<Rightarrow> (Some TypeError, e)
                 | Some workItemId \<Rightarrow>
                     updateDocument env e ''work_items'' workItemId
                       \<lparr> pd_status = ed_newStatus eventData,
                         pd_updatedAt = Some (now_handler env) \<rparr>)
           else (None, e)))"

text \<open>The \<open>catch\<close> block logs the error; the handler then returns normally.\<close>

definition handleWorkItemEvent :: "env \<Rightarrow> engine \<Rightarrow> message \<Rightarrow> error option \<times> engine" where
  "handleWorkItemEvent env e msg =
     (case handleWorkItemEvent_try env e msg of (r, e') \<Rightarrow> (None, e'))"

definition handleUserEvent_try :: "env \<Rightarrow> engine \<Rightarrow> message \<Rightarrow> error option \<times> engine" where
  "handleUserEvent_try env e msg =
     (case msg_content msg of
        Unparseable \<Rightarrow> (Some SyntaxError, e)
      | Null \<Rightarrow>
          (if routingKey msg = ''user.created'' \<or> routingKey msg = ''user.updated''
              \<or> routingKey msg = ''user.deleted''
           then (Some TypeError, e) else (None, e))
      | Object eventData \<Rightarrow>
          (if routingKey msg = ''user.created'' \<or> routingKey msg = ''user.updated''
           then (case ed_user eventData of
                   None \<Rightarrow> (Some TypeError, e)
                 | Some u \<Rightarrow>
                     indexDocument env e ''users'' (UserDocument (userDocument (now_handler env) u)))
           else if routingKey msg = ''user.deleted''
           then (case ed_userId eventData of
                   None \<Rightarrow> (Some TypeError, e)
                 | Some userId \<Rightarrow> deleteDocument env e ''users'' userId)
           else (None, e)))"

definition handleUserEvent :: "env \<Rightarrow> engine \<Rightarrow> message \<Rightarrow> error option \<times> engine" where
  "handleUserEvent env e msg =
     (case handleUserEvent_try env e msg of (r, e') \<Rightarrow> (None, e'))"

text \<open>
  The reindex requests are only logged; the tenant and type scopes read a property of the
  parsed content for the log entry.
\<close>

definition handleReindexRequest_try :: "env \<Rightarrow> engine \<Rightarrow> message \<Rightarrow> error option \<times> engine" where
  "handleReindexRequest_try env e msg =
     (case msg_content msg of
        Unparseable \<Rightarrow> (Some SyntaxError, e)
      | Null \<Rightarrow>
          (if routingKey msg = ''search.reindex.tenant'' \<or> routingKey msg = ''search.reindex.type''
           then (Some TypeError, e) else (None, e))
      | Object requestData \<Rightarrow> (None, e))"

definition handleReindexRequest :: "env \<Rightarrow> engine \<Rightarrow> message \<Rightarrow> error option \<times> engine" where
  "handleReindexRequest env e msg =
     (case handleReindexRequest_try env e msg of (r, e') \<Rightarrow> (None, e'))"

text \<open>
  The consumer callbacks of \<open>setupConsumers\<close>: the handler is awaited and the message is
  acknowledged after it. An error of the handler would leave the callback before the
  acknowledgement. The result is the error of the callback, the engine afterwards, and the
  acknowledgements sent to the broker. The broker hands \<open>null\<close> to the callback when it
  cancels the consumer.
\<close>

datatype queue = WorkItems | Users | Reindex

definition handler_of :: "queue \<Rightarrow> env \<Rightarrow> engine \<Rightarrow> message \<Rightarrow> error option \<times> engine" where
  "handler_of q = (case q of WorkItems \<Rightarrow> handleWorkItemEvent
                           | Users \<Rightarrow> handleUserEvent
                           | Reindex \<Rightarrow> handleReindexRequest)"

definition consume ::
  "queue \<Rightarrow> env \<Rightarrow> engine \<Rightarrow> message option \<Rightarrow> error option \<times> engine \<times> message list" where
  "consume q env e m =
     (case m of
        None \<Rightarrow> (None, e, [])
      | Some msg \<Rightarrow>
          (case handler_of q env e msg of
             (Some err, e') \<Rightarrow> (Some err, e', [])
           | (None, e') \<Rightarrow> (None, e', [msg])))"

text \<open>
  Messages of the work-item queue handled one after another, each to its end before the next
  starts, every one in its own environment.
\<close>

fun process_all :: "engine \<Rightarrow> (env \<times> message) list \<Rightarrow> engine" where
  "process_all e [] = e"
| "process_all e ((env, msg) # rest) =
     process_all (fst (snd (consume WorkItems env e (Some msg)))) rest"

section \<open>Example inputs\<close>

definition ex_query :: search_query where
  "ex_query = \<lparr> q_query = ''launch'', q_filters = None, q_sort = None, q_pagination = None,
                 q_tenantId = ''t1'', q_userId = ''u7'', q_userRole = ''Manager'' \<rparr>"

definition blank_query :: search_query where
  "blank_query = ex_query\<lparr> q_query := ''  '' \<rparr>"

text \<open>An engine that evaluates a term clause on the tenant of a document and nothing else.\<close>

fun tenant_matches :: "clause \<Rightarrow> string \<Rightarrow> bool" where
  "tenant_matches (Term f v) d = (d = v)"
| "tenant_matches c d = True"

definition ex_user :: jwt_payload where
  "ex_user = \<lparr> jwt_userId = ''u7'', jwt_role = ''Manager'', jwt_tenantId = ''t1'' \<rparr>"

definition body_with_pagination :: "number option \<Rightarrow> number option \<Rightarrow> raw_request" where
  "body_with_pagination frm sz =
     \<lparr> r_query = Some ''launch'', r_filters = None, r_sort = None,
       r_pagination = Some \<lparr> rp_from = frm, rp_size = sz \<rparr> \<rparr>"

definition body_without_pagination :: raw_request where
  "body_without_pagination =
     \<lparr> r_query = Some ''launch'', r_filters = None, r_sort = None, r_pagination = None \<rparr>"

definition ex_env :: env where
  "ex_env = \<lparr> indexPrefix = ''htma'', fault = None,
               now_handler = ''2024-01-03T00:00:00.000Z'',
               now_gateway = ''2024-01-03T00:00:00.001Z'' \<rparr>"

definition later_env :: env where
  "later_env = ex_env\<lparr> now_handler := ''2024-01-04T00:00:00.000Z'',
                        now_gateway := ''2024-01-04T00:00:00.001Z'' \<rparr>"

definition unreachable_env :: env where
  "unreachable_env = ex_env\<lparr> fault := Some ConnectionError \<rparr>"

definition empty_engine :: engine where
  "empty_engine = \<lparr> docs = (\<lambda>index. Map.empty), requests = [] \<rparr>"

definition ex_work_item :: "string \<Rightarrow> string \<Rightarrow> work_item" where
  "ex_work_item t upd =
     \<lparr> wi_id = ''wi1'', tenant_id = ''t1'', wi_title = t, description = None,
       wi_type = ''task'', wi_status = ''open'', wi_priority = ''high'',
       assigned_to = Some ''u42'', parent_id = None, wi_tags = None,
       wi_dependencies = None, wi_lineage = None, wi_progress = None,
       created_at = ''2024-01-01T00:00:00.000Z'', updated_at = upd,
       due_date = None, created_by = Some ''u7'', estimated_hours = None,
       actual_hours = None, completion_date = None \<rparr>"

definition fresh_item :: work_item where
  "fresh_item = ex_work_item ''Launch plan, revised'' ''2024-01-02T00:00:00.000Z''"

definition stale_item :: work_item where
  "stale_item = ex_work_item ''Launch plan'' ''2024-01-01T00:00:00.000Z''"

text \<open>A work item of another tenant, assigned to \<open>alice\<close>, whose creator is the empty string.\<close>

definition alice_item :: work_item where
  "alice_item = fresh_item\<lparr> tenant_id := ''t9'', assigned_to := Some ''alice'', created_by := Some [] \<rparr>"

definition no_event_data :: event_data where
  "no_event_data = \<lparr> ed_workItem = None, ed_workItemId = None, ed_newStatus = None,
                      ed_user = None, ed_userId = None \<rparr>"

definition work_item_message :: "string \<Rightarrow> work_item \<Rightarrow> message" where
  "work_item_message key w =
     \<lparr> routingKey = key, msg_content = Object (no_event_data\<lparr> ed_workItem := Some w \<rparr>) \<rparr>"

definition status_message :: "string \<Rightarrow> string \<Rightarrow> message" where
  "status_message i s =
     \<lparr> routingKey = ''work_item.status_changed'',
       msg_content = Object (no_event_data\<lparr> ed_workItemId := Some i, ed_newStatus := Some s \<rparr>) \<rparr>"

definition deleted_message :: "string \<Rightarrow> message" where
  "deleted_message i =
     \<lparr> routingKey = ''work_item.deleted'',
       msg_content = Object (no_event_data\<lparr> ed_workItemId := Some i \<rparr>) \<rparr>"

definition archived_message :: message where
  "archived_message =
     \<lparr> routingKey = ''work_item.archived'',
       msg_content = Object (no_event_data\<lparr> ed_workItemId := Some ''wi1'' \<rparr>) \<rparr>"

section \<open>The query compiler\<close>

subsection \<open>Tenant isolation\<close>

lemma bool_filter_Cons:
  "\<exists>rest. bool_filter (buildSearchQuery q) = Term ''tenantId'' (q_tenantId q) # rest"
  by (simp add: buildSearchQuery_def Let_def split: option.splits)

lemma bool_must_cases:
  "bool_must (buildSearchQuery q) = [MatchAll] \<or>
   (\<exists>fields ty fz. bool_must (buildSearchQuery q) = [MultiMatch (q_query q) fields ty fz])"
  by (simp add: buildSearchQuery_def Let_def)

text \<open>
  Claim C1. Whatever the free text, filters, sort and pagination of a search request, the
  body sent to the engine carries the term clause on \<open>tenantId\<close> with the tenant of the
  request, as the first clause of the filter context of the boolean query and not among the
  scoring clauses. Hence, for any engine that evaluates that term clause as equality on the
  tenant of a document, a document that passes every filter clause belongs to the tenant of
  the request.
\<close>

theorem tenant_filter_always_present:
  "hd (bool_filter (snd (search_request pfx q))) = Term ''tenantId'' (q_tenantId q)
   \<and> Term ''tenantId'' (q_tenantId q) \<in> set (bool_filter (snd (search_request pfx q)))
   \<and> (\<forall>c \<in> set (bool_must (snd (search_request pfx q))). \<forall>f v. c \<noteq> Term f v)
   \<and> ((\<forall>t. matches (Term ''tenantId'' t) d \<longleftrightarrow> tenant_of d = t) \<longrightarrow>
        (\<forall>c \<in> set (bool_filter (snd (search_request pfx q))). matches c d) \<longrightarrow>
        tenant_of d = q_tenantId q)"
proof -
  obtain rest where r: "bool_filter (buildSearchQuery q) = Term ''tenantId'' (q_tenantId q) # rest"
    using bool_filter_Cons by blast
  have m: "\<forall>c \<in> set (bool_must (buildSearchQuery q)). \<forall>f v. c \<noteq> Term f v"
    using bool_must_cases [of q] by auto
  show ?thesis
    using r m by (simp add: search_request_def)
qed

theorem tenant_filter_always_present_witness:
  "(\<forall>t. tenant_matches (Term ''tenantId'' t) ''t1'' \<longleftrightarrow> id ''t1'' = t)
   \<and> list_all (\<lambda>c. tenant_matches c ''t1'') (bool_filter (snd (search_request ''htma'' ex_query)))
   \<and> hd (bool_filter (snd (search_request ''htma'' ex_query))) = Term ''tenantId'' ''t1''
   \<and> id ''t1'' = q_tenantId ex_query"
  using tenant_filter_always_present [of "''htma''" ex_query tenant_matches "''t1''" id]
  by (auto simp add: ex_query_def search_request_def buildSearchQuery_def Let_def)

subsection \<open>The free-text clause\<close>

lemma dropWhile_all_imp_Nil:
  assumes "\<forall>c\<in>set (dropWhile P s). P c"
  shows "dropWhile P s = []"
proof (rule ccontr)
  assume n: "dropWhile P s \<noteq> []"
  then have "\<not> P (hd (dropWhile P s))"
    by (rule hd_dropWhile)
  moreover have "hd (dropWhile P s) \<in> set (dropWhile P s)"
    using n by simp
  ultimately show False using assms by blast
qed

lemma trim_empty_iff: "trim s = [] \<longleftrightarrow> (\<forall>c\<in>set s. is_js_whitespace c)"
proof
  assume "trim s = []"
  then have "\<forall>c\<in>set (dropWhile is_js_whitespace s). is_js_whitespace c"
    by (simp add: trim_def)
  then have "dropWhile is_js_whitespace s = []"
    by (rule dropWhile_all_imp_Nil)
  then show "\<forall>c\<in>set s. is_js_whitespace c"
    by simp
next
  assume "\<forall>c\<in>set s. is_js_whitespace c"
  then have "dropWhile is_js_whitespace s = []"
    by simp
  then show "trim s = []"
    unfolding trim_def by (simp del: dropWhile_eq_Nil_conv)
qed

text \<open>
  A free text of two spaces is not empty, and the compiled query matches all documents
  instead of carrying the weighted multi-field match.
\<close>

theorem blank_query_counterexample:
  "q_query blank_query \<noteq> [] \<and> bool_must (buildSearchQuery blank_query) = [MatchAll]"
  by (simp add: blank_query_def ex_query_def buildSearchQuery_def Let_def truthy_def trim_def
      is_js_whitespace_def)

text \<open>
  Claim C9, amended. If the free text holds a character that is not white space, the only
  scoring clause is a fuzzy (\<open>AUTO\<close>) best-fields multi-field match of the text over
  \<open>title\<close> with boost 3, \<open>content\<close> with boost 2 and \<open>tags\<close> with boost 1.5; if the text is
  empty or white space only, the only scoring clause is match-all.
\<close>

theorem free_text_clause:
  "bool_must (buildSearchQuery q) =
     (if \<exists>c\<in>set (q_query q). \<not> is_js_whitespace c
      then [MultiMatch (q_query q) [(''title'', 3), (''content'', 2), (''tags'', 3 / 2)]
              ''best_fields'' ''AUTO'']
      else [MatchAll])"
  by (auto simp add: buildSearchQuery_def Let_def truthy_def trim_empty_iff)

theorem free_text_clause_witness:
  "(\<exists>c\<in>set (q_query ex_query). \<not> is_js_whitespace c)
   \<and> bool_must (buildSearchQuery ex_query) =
       [MultiMatch ''launch'' [(''title'', 3), (''content'', 2), (''tags'', 3 / 2)]
          ''best_fields'' ''AUTO'']
   \<and> \<not> (\<exists>c\<in>set (q_query blank_query). \<not> is_js_whitespace c)
   \<and> bool_must (buildSearchQuery blank_query) = [MatchAll]"
proof -
  have a: "\<exists>c\<in>set (q_query ex_query). \<not> is_js_whitespace c"
    by (simp add: ex_query_def is_js_whitespace_def)
  have b: "\<not> (\<exists>c\<in>set (q_query blank_query). \<not> is_js_whitespace c)"
    by (simp add: blank_query_def ex_query_def is_js_whitespace_def)
  have c: "q_query ex_query = ''launch''"
    by (simp add: ex_query_def)
  show ?thesis
    using a b c free_text_clause [of ex_query] free_text_clause [of blank_query]
    by simp
qed

subsection \<open>Collection selection\<close>

text \<open>
  A type filter that lists only \<open>project\<close> is not empty and matches no collection, and all
  three collections are searched.
\<close>

theorem unknown_type_counterexample:
  "getSearchIndices ''htma'' (Some [''project'']) =
     [''htma_work_items'', ''htma_users'', ''htma_templates'']"
  by (simp add: getSearchIndices_def nonempty_opt_def allIndices_def full_index_def)

text \<open>
  Claim C8, amended. When the type filter lists at least one of \<open>work_item\<close>, \<open>user\<close> and
  \<open>template\<close>, exactly the collections of the listed types among these are searched, in
  the order work items, users, templates. When the filter is absent, empty, or lists none of
  the three, all three collections are searched.
\<close>

theorem search_indices_selection:
  "(set (case types of None \<Rightarrow> [] | Some ts \<Rightarrow> ts) \<inter> {''work_item'', ''user'', ''template''} = {} \<longrightarrow>
      getSearchIndices p types =
        [full_index p ''work_items'', full_index p ''users'', full_index p ''templates''])
   \<and> (set (case types of None \<Rightarrow> [] | Some ts \<Rightarrow> ts) \<inter> {''work_item'', ''user'', ''template''} \<noteq> {} \<longrightarrow>
      getSearchIndices p types =
        filter (\<lambda>i. (i = full_index p ''work_items'' \<and> ''work_item'' \<in> set (the types))
                  \<or> (i = full_index p ''users'' \<and> ''user'' \<in> set (the types))
                  \<or> (i = full_index p ''templates'' \<and> ''template'' \<in> set (the types)))
          [full_index p ''work_items'', full_index p ''users'', full_index p ''templates''])"
  by (cases types)
     (auto simp add: getSearchIndices_def nonempty_opt_def allIndices_def full_index_def Let_def)

theorem search_indices_selection_witness:
  "set (case Some [''user'', ''project''] of None \<Rightarrow> [] | Some ts \<Rightarrow> ts)
      \<inter> {''work_item'', ''user'', ''template''} \<noteq> {}
   \<and> getSearchIndices ''htma'' (Some [''user'', ''project'']) = [''htma_users'']
   \<and> set (case None of None \<Rightarrow> [] | Some ts \<Rightarrow> ts) \<inter> {''work_item'', ''user'', ''template''} = {}
   \<and> getSearchIndices ''htma'' None = [''htma_work_items'', ''htma_users'', ''htma_templates'']"
  using search_indices_selection [of "Some [''user'', ''project'']" "''htma''"]
        search_indices_selection [of None "''htma''"]
  by (simp add: full_index_def)

subsection \<open>Pagination\<close>

text \<open>
  A requested size of 0 and a requested size of 500 are both answered with a validation
  error: no query is compiled, so no size is clamped.
\<close>

theorem size_out_of_range_counterexample:
  "controller_search (Some ex_user) (body_with_pagination (Some 0) (Some 0)) =
     Inl (BadRequest [TooSmall [''pagination'', ''size'']])
   \<and> controller_search (Some ex_user) (body_with_pagination (Some 0) (Some 500)) =
     Inl (BadRequest [TooBig [''pagination'', ''size'']])"
  by (simp add: controller_search_def SearchQuerySchema_parse_def parse_pagination_def
      pagination_issues_def body_with_pagination_def Let_def)

text \<open>
  Claim C5, amended. A request whose pagination is present is accepted exactly when its
  offset (0 when missing) is not negative and its size (20 when missing) lies in [1,100];
  the compiled query then carries that offset and that size unchanged. Otherwise the request
  is rejected with a validation error, for a size such as 0 or 500 as for a negative offset.
  When the pagination is absent, the compiled query carries the size 20 and no offset, which
  leaves the offset to the engine's default.
\<close>

theorem pagination_validated:
  "(r_pagination body = Some rp \<longrightarrow>
      frm = (case rp_from rp of None \<Rightarrow> 0 | Some n \<Rightarrow> n) \<longrightarrow>
      sz = (case rp_size rp of None \<Rightarrow> 20 | Some n \<Rightarrow> n) \<longrightarrow>
      (if 0 \<le> frm \<and> 1 \<le> sz \<and> sz \<le> 100
       then \<exists>q. controller_search (Some u) body = Inr q
              \<and> from_offset (buildSearchQuery q) = Some frm
              \<and> size_limit (buildSearchQuery q) = sz
       else \<exists>issues. issues \<noteq> [] \<and> controller_search user body = Inl (BadRequest issues)))
   \<and> (r_pagination body = None \<longrightarrow>
      (\<exists>q. controller_search (Some u) body = Inr q
          \<and> from_offset (buildSearchQuery q) = None
          \<and> size_limit (buildSearchQuery q) = 20))"
  by (auto simp add: controller_search_def SearchQuerySchema_parse_def parse_pagination_def
      pagination_issues_def buildSearchQuery_def Let_def split: option.splits)

theorem pagination_validated_witness:
  "r_pagination (body_with_pagination (Some 10) (Some 50))
      = Some \<lparr> rp_from = Some 10, rp_size = Some 50 \<rparr>
   \<and> (\<exists>q. controller_search (Some ex_user) (body_with_pagination (Some 10) (Some 50)) = Inr q
          \<and> from_offset (buildSearchQuery q) = Some 10
          \<and> size_limit (buildSearchQuery q) = 50)
   \<and> r_pagination (body_with_pagination (Some (- 1)) None)
      = Some \<lparr> rp_from = Some (- 1), rp_size = None \<rparr>
   \<and> (\<exists>issues. issues \<noteq> []
          \<and> controller_search None (body_with_pagination (Some (- 1)) None)
              = Inl (BadRequest issues))
   \<and> r_pagination body_without_pagination = None
   \<and> (\<exists>q. controller_search (Some ex_user) body_without_pagination = Inr q
          \<and> from_offset (buildSearchQuery q) = None
          \<and> size_limit (buildSearchQuery q) = 20)"
proof -
  have a: "r_pagination (body_with_pagination (Some 10) (Some 50))
             = Some \<lparr> rp_from = Some 10, rp_size = Some 50 \<rparr>"
    by (simp add: body_with_pagination_def)
  have b: "r_pagination (body_with_pagination (Some (- 1)) None)
             = Some \<lparr> rp_from = Some (- 1), rp_size = None \<rparr>"
    by (simp add: body_with_pagination_def)
  have c: "r_pagination body_without_pagination = None"
    by (simp add: body_without_pagination_def)
  show ?thesis
    using a b c
      pagination_validated [of "body_with_pagination (Some 10) (Some 50)"
        "\<lparr> rp_from = Some 10, rp_size = Some 50 \<rparr>" 10 50 ex_user None]
      pagination_validated [of "body_with_pagination (Some (- 1)) None"
        "\<lparr> rp_from = Some (- 1), rp_size = None \<rparr>" "- 1" 20 ex_user None]
      pagination_validated [of body_without_pagination _ _ _ ex_user]
    by simp
qed

section \<open>The document mapper\<close>

text \<open>
  Claim C7. A work item of tenant \<open>t1\<close> assigned to \<open>u42\<close> and created by \<open>u7\<close> gets
  exactly the permissions \<open>tenant:t1\<close>, \<open>user:u42\<close>, \<open>user:u7\<close> and the five role tokens
  for CEO, President, VP, Director and Manager. For every work item, the permissions are, in
  this order: the tenant token of its tenant; the user token of its assignee, if it has one
  and the assignee is not the empty string; the user token of its creator, under the same
  condition; and the five role tokens. So the tenant token and the role tokens are always
  emitted, every assignee and creator that is present and not empty has its user token
  emitted, and every other permission is the user token of an assignee or of a creator that
  the work item has.
\<close>

theorem permissions_derivation:
  "(tenant_id w = ''t1'' \<and> assigned_to w = Some ''u42'' \<and> created_by w = Some ''u7'' \<longrightarrow>
      calculatePermissions w =
        [''tenant:t1'', ''user:u42'', ''user:u7'',
         ''role:CEO'', ''role:President'', ''role:VP'', ''role:Director'', ''role:Manager''])
   \<and> calculatePermissions w =
        [''tenant:'' @ tenant_id w] @
        (case assigned_to w of None \<Rightarrow> [] | Some x \<Rightarrow> if x = [] then [] else [''user:'' @ x]) @
        (case created_by w of None \<Rightarrow> [] | Some y \<Rightarrow> if y = [] then [] else [''user:'' @ y]) @
        [''role:CEO'', ''role:President'', ''role:VP'', ''role:Director'', ''role:Manager'']
   \<and> {''tenant:'' @ tenant_id w,
       ''role:CEO'', ''role:President'', ''role:VP'', ''role:Director'', ''role:Manager''}
        \<subseteq> set (calculatePermissions w)
   \<and> (assigned_to w = Some a \<longrightarrow> a \<noteq> [] \<longrightarrow> ''user:'' @ a \<in> set (calculatePermissions w))
   \<and> (created_by w = Some c \<longrightarrow> c \<noteq> [] \<longrightarrow> ''user:'' @ c \<in> set (calculatePermissions w))
   \<and> (p \<in> set (calculatePermissions w) \<longrightarrow>
        p = ''tenant:'' @ tenant_id w
        \<or> p \<in> {''role:CEO'', ''role:President'', ''role:VP'', ''role:Director'', ''role:Manager''}
        \<or> (\<exists>a. assigned_to w = Some a \<and> a \<noteq> [] \<and> p = ''user:'' @ a)
        \<or> (\<exists>c. created_by w = Some c \<and> c \<noteq> [] \<and> p = ''user:'' @ c))"
  by (auto simp add: calculatePermissions_def truthy_opt_def truthy_def
      split: option.splits if_splits)

theorem permissions_derivation_witness:
  "tenant_id fresh_item = ''t1'' \<and> assigned_to fresh_item = Some ''u42''
   \<and> created_by fresh_item = Some ''u7''
   \<and> ''user:u42'' \<in> set (calculatePermissions fresh_item)
   \<and> set (calculatePermissions fresh_item) =
       {''tenant:t1'', ''user:u42'', ''user:u7'',
        ''role:CEO'', ''role:President'', ''role:VP'', ''role:Director'', ''role:Manager''}
   \<and> assigned_to alice_item = Some ''alice'' \<and> ''alice'' \<noteq> []
   \<and> created_by alice_item = Some []
   \<and> ''user:alice'' \<in> set (calculatePermissions alice_item)
   \<and> calculatePermissions alice_item =
       [''tenant:t9'', ''user:alice'',
        ''role:CEO'', ''role:President'', ''role:VP'', ''role:Director'', ''role:Manager'']"
proof -
  have a: "tenant_id fresh_item = ''t1'' \<and> assigned_to fresh_item = Some ''u42''
           \<and> created_by fresh_item = Some ''u7''"
    by (simp add: fresh_item_def ex_work_item_def)
  have b: "calculatePermissions fresh_item =
        [''tenant:t1'', ''user:u42'', ''user:u7'',
         ''role:CEO'', ''role:President'', ''role:VP'', ''role:Director'', ''role:Manager'']"
    using a permissions_derivation [of fresh_item "''u42''" "''u7''" "''user:u42''"] by blast
  have c: "tenant_id alice_item = ''t9'' \<and> assigned_to alice_item = Some ''alice''
           \<and> created_by alice_item = Some []"
    by (simp add: alice_item_def fresh_item_def ex_work_item_def)
  have d: "''user:alice'' \<in> set (calculatePermissions alice_item)"
    using c permissions_derivation [of alice_item "''alice''" "''u7''" "''user:alice''"] by simp
  have e: "calculatePermissions alice_item =
       [''tenant:t9'', ''user:alice'',
        ''role:CEO'', ''role:President'', ''role:VP'', ''role:Director'', ''role:Manager'']"
    using c permissions_derivation [of alice_item "''alice''" "''u7''" "''user:alice''"] by simp
  show ?thesis
    using a c d e by (simp add: b)
qed

section \<open>The index synchronizer\<close>

lemma consume_acks:
  "consume q env e (Some msg) = (None, snd (handler_of q env e msg), [msg])"
  by (cases q)
     (simp_all add: consume_def handler_of_def handleWorkItemEvent_def handleUserEvent_def
        handleReindexRequest_def split: prod.splits)

lemma handler_of_WorkItems:
  "snd (handler_of WorkItems env e msg) = snd (handleWorkItemEvent_try env e msg)"
  by (simp add: handler_of_def handleWorkItemEvent_def split: prod.splits)

lemma process_one:
  "process_all e ((env, msg) # rest) = process_all (snd (handleWorkItemEvent_try env e msg)) rest"
  by (simp add: consume_acks handler_of_WorkItems)

lemma reindex_docs:
  "fault env = None \<Longrightarrow>
   docs (snd (reindexWorkItem env e w)) =
     (docs e)(full_index (indexPrefix env) ''work_items'' :=
        (docs e (full_index (indexPrefix env) ''work_items''))
          (wi_id w \<mapsto> WorkItemDocument (workItemDocument w)))"
  by (simp add: reindexWorkItem_def indexDocument_def client_index_def document_id_def
      workItemDocument_def Let_def)

lemma upsert_try:
  assumes "routingKey msg = ''work_item.created'' \<or> routingKey msg = ''work_item.updated''"
    and "msg_content msg = Object ed" and "ed_workItem ed = Some w"
  shows "handleWorkItemEvent_try env e msg = reindexWorkItem env e w"
  using assms by (auto simp add: handleWorkItemEvent_try_def)

lemma upsert_message_try:
  "handleWorkItemEvent_try env e (work_item_message ''work_item.updated'' w)
     = reindexWorkItem env e w"
  by (rule upsert_try [where ed = "no_event_data\<lparr> ed_workItem := Some w \<rparr>"])
     (simp_all add: work_item_message_def)

lemma ex_env_facts:
  "fault ex_env = None" "fault later_env = None"
  "indexPrefix later_env = indexPrefix ex_env"
  "full_index (indexPrefix ex_env) ''work_items'' = ''htma_work_items''"
  by (simp_all add: ex_env_def later_env_def full_index_def)

lemma ex_item_ids:
  "wi_id stale_item = ''wi1''" "wi_id fresh_item = ''wi1''"
  by (simp_all add: stale_item_def fresh_item_def ex_work_item_def)

subsection \<open>Upserts in sequence\<close>

text \<open>
  Two snapshots of the work item \<open>wi1\<close>, the second one older than the first by its
  update time, handled in that order on an empty index: the index ends with the document of
  the older snapshot.
\<close>

theorem stale_write_counterexample:
  "wi_id stale_item = wi_id fresh_item
   \<and> updated_at stale_item < updated_at fresh_item
   \<and> docs (process_all empty_engine
        [(ex_env, work_item_message ''work_item.updated'' fresh_item),
         (ex_env, work_item_message ''work_item.updated'' stale_item)])
        ''htma_work_items'' ''wi1''
      = Some (WorkItemDocument (workItemDocument stale_item))
   \<and> workItemDocument stale_item \<noteq> workItemDocument fresh_item"
proof -
  have a: "wi_id stale_item = wi_id fresh_item"
    by (simp add: ex_item_ids)
  have b: "updated_at stale_item < updated_at fresh_item"
    by (simp add: stale_item_def fresh_item_def ex_work_item_def)
  have c: "docs (process_all empty_engine
        [(ex_env, work_item_message ''work_item.updated'' fresh_item),
         (ex_env, work_item_message ''work_item.updated'' stale_item)])
        ''htma_work_items'' ''wi1''
      = Some (WorkItemDocument (workItemDocument stale_item))"
    by (simp add: process_one upsert_message_try reindex_docs ex_env_facts ex_item_ids
        del: process_all.simps(2))
  have "title (workItemDocument stale_item) \<noteq> title (workItemDocument fresh_item)"
    by (simp add: workItemDocument_def stale_item_def fresh_item_def ex_work_item_def)
  then have d: "workItemDocument stale_item \<noteq> workItemDocument fresh_item"
    by auto
  show ?thesis
    using a b c d by simp
qed

text \<open>
  Claim C2, amended. The synchronizer compares no timestamps. When two created or updated
  events for the same document id are handled one after the other and the engine accepts
  both writes, the indexed document is the one derived from the event handled last,
  whatever the update times of the two snapshots.
\<close>

theorem last_processed_event_wins:
  assumes "routingKey m1 = ''work_item.created'' \<or> routingKey m1 = ''work_item.updated''"
    and "routingKey m2 = ''work_item.created'' \<or> routingKey m2 = ''work_item.updated''"
    and "msg_content m1 = Object ed1" and "ed_workItem ed1 = Some w1"
    and "msg_content m2 = Object ed2" and "ed_workItem ed2 = Some w2"
    and "wi_id w2 = wi_id w1"
    and "fault env1 = None" and "fault env2 = None"
  shows "docs (process_all e [(env1, m1), (env2, m2)])
           (full_index (indexPrefix env2) ''work_items'') (wi_id w1)
         = Some (WorkItemDocument (workItemDocument w2))"
proof -
  have 1: "handleWorkItemEvent_try env1 e m1 = reindexWorkItem env1 e w1"
    using assms by (intro upsert_try) auto
  have 2: "handleWorkItemEvent_try env2 (snd (reindexWorkItem env1 e w1)) m2
             = reindexWorkItem env2 (snd (reindexWorkItem env1 e w1)) w2"
    using assms by (intro upsert_try) auto
  show ?thesis
    using assms(7,9) by (simp add: process_one 1 2 reindex_docs del: process_all.simps(2))
qed

theorem last_processed_event_wins_witness:
  "routingKey (work_item_message ''work_item.created'' stale_item) = ''work_item.created''
   \<and> routingKey (work_item_message ''work_item.updated'' fresh_item) = ''work_item.updated''
   \<and> wi_id fresh_item = wi_id stale_item
   \<and> fault ex_env = None \<and> fault later_env = None
   \<and> docs (process_all empty_engine
        [(ex_env, work_item_message ''work_item.created'' stale_item),
         (later_env, work_item_message ''work_item.updated'' fresh_item)])
        ''htma_work_items'' ''wi1''
      = Some (WorkItemDocument (workItemDocument fresh_item))"
proof -
  have k: "routingKey (work_item_message ''work_item.created'' stale_item) = ''work_item.created''"
    "routingKey (work_item_message ''work_item.updated'' fresh_item) = ''work_item.updated''"
    by (simp_all add: work_item_message_def)
  have c: "msg_content (work_item_message ''work_item.created'' stale_item)
             = Object (no_event_data\<lparr> ed_workItem := Some stale_item \<rparr>)"
    "msg_content (work_item_message ''work_item.updated'' fresh_item)
             = Object (no_event_data\<lparr> ed_workItem := Some fresh_item \<rparr>)"
    by (simp_all add: work_item_message_def)
  have "docs (process_all empty_engine
        [(ex_env, work_item_message ''work_item.created'' stale_item),
         (later_env, work_item_message ''work_item.updated'' fresh_item)])
        (full_index (indexPrefix later_env) ''work_items'') (wi_id stale_item)
      = Some (WorkItemDocument (workItemDocument fresh_item))"
    by (rule last_processed_event_wins [OF _ _ c(1) _ c(2)])
       (simp_all add: k ex_item_ids ex_env_facts)
  then show ?thesis
    by (simp add: k ex_item_ids ex_env_facts)
qed

text \<open>
  Claim C6. Handling the same created or updated event twice, with the engine accepting
  both writes, leaves the same documents in the index as handling it once, and the document
  under the id of the work item is the one derived from the snapshot alone: neither the
  clock nor the earlier content of the index enters it.
\<close>

theorem idempotent_upsert:
  assumes "routingKey msg = ''work_item.created'' \<or> routingKey msg = ''work_item.updated''"
    and "msg_content msg = Object ed" and "ed_workItem ed = Some w"
    and "fault env1 = None" and "fault env2 = None"
    and "indexPrefix env2 = indexPrefix env1"
  shows "docs (process_all e [(env1, msg), (env2, msg)]) = docs (process_all e [(env1, msg)])
       \<and> docs (process_all e [(env1, msg)]) (full_index (indexPrefix env1) ''work_items'') (wi_id w)
           = Some (WorkItemDocument (workItemDocument w))"
proof -
  have 1: "handleWorkItemEvent_try env e' msg = reindexWorkItem env e' w" for env e'
    using assms(1-3) by (rule upsert_try)
  show ?thesis
    using assms(4-6) by (simp add: process_one 1 reindex_docs del: process_all.simps(2))
qed

theorem idempotent_upsert_witness:
  "routingKey (work_item_message ''work_item.updated'' fresh_item) = ''work_item.updated''
   \<and> fault ex_env = None \<and> fault later_env = None
   \<and> indexPrefix later_env = indexPrefix ex_env
   \<and> docs (process_all empty_engine
        [(ex_env, work_item_message ''work_item.updated'' fresh_item),
         (later_env, work_item_message ''work_item.updated'' fresh_item)])
      = docs (process_all empty_engine
        [(ex_env, work_item_message ''work_item.updated'' fresh_item)])
   \<and> docs (process_all empty_engine
        [(ex_env, work_item_message ''work_item.updated'' fresh_item)])
        ''htma_work_items'' ''wi1''
      = Some (WorkItemDocument (workItemDocument fresh_item))"
proof -
  have k: "routingKey (work_item_message ''work_item.updated'' fresh_item) = ''work_item.updated''"
    by (simp add: work_item_message_def)
  have c: "msg_content (work_item_message ''work_item.updated'' fresh_item)
             = Object (no_event_data\<lparr> ed_workItem := Some fresh_item \<rparr>)"
    by (simp add: work_item_message_def)
  have w: "ed_workItem (no_event_data\<lparr> ed_workItem := Some fresh_item \<rparr>) = Some fresh_item"
    by simp
  show ?thesis
    using idempotent_upsert [of "work_item_message ''work_item.updated'' fresh_item"
        "no_event_data\<lparr> ed_workItem := Some fresh_item \<rparr>" fresh_item ex_env later_env
        empty_engine] c w
    by (simp add: k ex_item_ids ex_env_facts)
qed

subsection \<open>Deleting a document\<close>

lemma delete_absent_not_found:
  "fault env = None \<Longrightarrow> docs e (full_index (indexPrefix env) c) i = None \<Longrightarrow>
   deleteDocument env e c i =
     (Some (ResponseError 404),
      e\<lparr> requests := requests e @ [DeleteRequest (full_index (indexPrefix env) c) i] \<rparr>)"
  by (simp add: deleteDocument_def client_delete_def Let_def)

lemma delete_absent_after:
  "fault env = None \<Longrightarrow>
   docs (snd (deleteDocument env e c i)) (full_index (indexPrefix env) c) i = None"
  by (simp add: deleteDocument_def client_delete_def Let_def split: option.splits)

text \<open>
  The work-item index of the empty engine does not hold \<open>wi1\<close>, and deleting it raises the
  response error of status 404.
\<close>

theorem delete_missing_id_counterexample:
  "docs empty_engine ''htma_work_items'' ''wi1'' = None
   \<and> fst (deleteDocument ex_env empty_engine ''work_items'' ''wi1'') = Some (ResponseError 404)"
  by (simp add: deleteDocument_def client_delete_def Let_def ex_env_def empty_engine_def
      full_index_def)

text \<open>
  Claim C4, amended. On a reachable engine, deleting an id that the collection does not hold
  leaves every document as it was, and the gateway raises the engine's not-found error
  (status 404) to its caller. A second delete of the same id therefore changes nothing and
  raises that error. The work-item handler catches it: a \<open>work_item.deleted\<close> event for an
  id that is not indexed changes no document, raises no error and is acknowledged.
\<close>

theorem delete_missing_id:
  "(fault env = None \<longrightarrow> docs e (full_index (indexPrefix env) c) i = None \<longrightarrow>
      fst (deleteDocument env e c i) = Some (ResponseError 404)
      \<and> docs (snd (deleteDocument env e c i)) = docs e)
   \<and> (fault env = None \<longrightarrow> fault env' = None \<longrightarrow> indexPrefix env' = indexPrefix env \<longrightarrow>
      fst (deleteDocument env' (snd (deleteDocument env e c i)) c i) = Some (ResponseError 404)
      \<and> docs (snd (deleteDocument env' (snd (deleteDocument env e c i)) c i))
          = docs (snd (deleteDocument env e c i)))
   \<and> (fault env = None \<longrightarrow> routingKey msg = ''work_item.deleted'' \<longrightarrow>
      msg_content msg = Object ed \<longrightarrow> ed_workItemId ed = Some i \<longrightarrow>
      docs e (full_index (indexPrefix env) ''work_items'') i = None \<longrightarrow>
      fst (consume WorkItems env e (Some msg)) = None
      \<and> docs (fst (snd (consume WorkItems env e (Some msg)))) = docs e
      \<and> snd (snd (consume WorkItems env e (Some msg))) = [msg])"
proof (intro conjI impI)
  assume f: "fault env = None" and m: "docs e (full_index (indexPrefix env) c) i = None"
  show "fst (deleteDocument env e c i) = Some (ResponseError 404)"
    by (simp add: delete_absent_not_found [OF f m])
  show "docs (snd (deleteDocument env e c i)) = docs e"
    by (simp add: delete_absent_not_found [OF f m])
next
  assume f: "fault env = None" and f': "fault env' = None"
    and p: "indexPrefix env' = indexPrefix env"
  have a: "docs (snd (deleteDocument env e c i)) (full_index (indexPrefix env') c) i = None"
    using delete_absent_after [OF f, of e c i] p by simp
  show "fst (deleteDocument env' (snd (deleteDocument env e c i)) c i) = Some (ResponseError 404)"
    by (simp add: delete_absent_not_found [OF f' a])
  show "docs (snd (deleteDocument env' (snd (deleteDocument env e c i)) c i))
          = docs (snd (deleteDocument env e c i))"
    by (simp add: delete_absent_not_found [OF f' a])
next
  assume f: "fault env = None" and k: "routingKey msg = ''work_item.deleted''"
    and o: "msg_content msg = Object ed" and w: "ed_workItemId ed = Some i"
    and m: "docs e (full_index (indexPrefix env) ''work_items'') i = None"
  have t: "handleWorkItemEvent_try env e msg = deleteDocument env e ''work_items'' i"
    using k o w by (simp add: handleWorkItemEvent_try_def)
  show "fst (consume WorkItems env e (Some msg)) = None"
    by (simp add: consume_acks)
  show "docs (fst (snd (consume WorkItems env e (Some msg)))) = docs e"
    by (simp add: consume_acks handler_of_WorkItems t delete_absent_not_found [OF f m])
  show "snd (snd (consume WorkItems env e (Some msg))) = [msg]"
    by (simp add: consume_acks)
qed

theorem delete_missing_id_witness:
  "fault ex_env = None
   \<and> docs empty_engine (full_index (indexPrefix ex_env) ''work_items'') ''wi1'' = None
   \<and> routingKey (deleted_message ''wi1'') = ''work_item.deleted''
   \<and> fst (deleteDocument ex_env empty_engine ''work_items'' ''wi1'') = Some (ResponseError 404)
   \<and> docs (snd (deleteDocument ex_env empty_engine ''work_items'' ''wi1'')) = docs empty_engine
   \<and> fst (deleteDocument ex_env (snd (deleteDocument ex_env empty_engine ''work_items'' ''wi1''))
        ''work_items'' ''wi1'') = Some (ResponseError 404)
   \<and> snd (snd (consume WorkItems ex_env empty_engine (Some (deleted_message ''wi1''))))
        = [deleted_message ''wi1'']"
proof -
  have f: "fault ex_env = None"
    by (simp add: ex_env_def)
  have m: "docs empty_engine (full_index (indexPrefix ex_env) ''work_items'') ''wi1'' = None"
    by (simp add: empty_engine_def)
  have k: "routingKey (deleted_message ''wi1'') = ''work_item.deleted''"
    by (simp add: deleted_message_def)
  have o: "msg_content (deleted_message ''wi1'')
             = Object (no_event_data\<lparr> ed_workItemId := Some ''wi1'' \<rparr>)"
    by (simp add: deleted_message_def)
  have w: "ed_workItemId (no_event_data\<lparr> ed_workItemId := Some ''wi1'' \<rparr>) = Some ''wi1''"
    by simp
  show ?thesis
    using f m k o w
      delete_missing_id [of ex_env empty_engine "''work_items''" "''wi1''" ex_env
        "deleted_message ''wi1''" "no_event_data\<lparr> ed_workItemId := Some ''wi1'' \<rparr>"]
    by simp
qed

section \<open>The event consumer: acknowledgement\<close>

text \<open>
  The engine is unreachable while an update event is handled: the write raises a connection
  error inside the handler, the handler returns normally, the message is acknowledged, and
  the index has no document for the work item.
\<close>

theorem acknowledged_after_error_counterexample:
  "fst (handleWorkItemEvent_try unreachable_env empty_engine
          (work_item_message ''work_item.updated'' fresh_item)) = Some ConnectionError
   \<and> fst (consume WorkItems unreachable_env empty_engine
            (Some (work_item_message ''work_item.updated'' fresh_item))) = None
   \<and> snd (snd (consume WorkItems unreachable_env empty_engine
            (Some (work_item_message ''work_item.updated'' fresh_item))))
       = [work_item_message ''work_item.updated'' fresh_item]
   \<and> docs (fst (snd (consume WorkItems unreachable_env empty_engine
            (Some (work_item_message ''work_item.updated'' fresh_item)))))
        ''htma_work_items'' ''wi1'' = None"
proof -
  have r: "reindexWorkItem unreachable_env empty_engine fresh_item
           = (Some ConnectionError,
              empty_engine\<lparr> requests := [IndexRequest ''htma_work_items'' ''wi1''] \<rparr>)"
    by (simp add: reindexWorkItem_def indexDocument_def client_index_def Let_def
        unreachable_env_def ex_env_def empty_engine_def full_index_def document_id_def
        workItemDocument_def fresh_item_def ex_work_item_def)
  show ?thesis
    by (simp add: consume_acks handler_of_WorkItems upsert_message_try r)
       (simp add: empty_engine_def)
qed

text \<open>
  Claim C3, amended. The consumer acknowledges every message after its handler has
  returned, and the handler always returns normally: it catches every error raised while it
  handles the message, be it a syntax error of the content, a malformed payload or a failure
  of the engine. A message is therefore acknowledged whether or not its handling raised an
  error; no message is negatively acknowledged, requeued or retried. The engine is left as
  the interrupted handling left it.
\<close>

theorem consumer_acknowledges_every_message:
  "fst (consume q env e (Some msg)) = None
   \<and> snd (snd (consume q env e (Some msg))) = [msg]
   \<and> fst (snd (consume WorkItems env e (Some msg))) = snd (handleWorkItemEvent_try env e msg)
   \<and> fst (snd (consume Users env e (Some msg))) = snd (handleUserEvent_try env e msg)
   \<and> fst (snd (consume Reindex env e (Some msg))) = snd (handleReindexRequest_try env e msg)"
  by (simp add: consume_acks handler_of_def handleWorkItemEvent_def handleUserEvent_def
      handleReindexRequest_def split: prod.splits)

theorem consumer_acknowledges_every_message_witness:
  "fst (handleWorkItemEvent_try ex_env empty_engine (status_message ''wi1'' ''done''))
      = Some (ResponseError 404)
   \<and> fst (consume WorkItems ex_env empty_engine (Some (status_message ''wi1'' ''done''))) = None
   \<and> snd (snd (consume WorkItems ex_env empty_engine (Some (status_message ''wi1'' ''done''))))
      = [status_message ''wi1'' ''done'']"
proof -
  have "fst (handleWorkItemEvent_try ex_env empty_engine (status_message ''wi1'' ''done''))
      = Some (ResponseError 404)"
    by (simp add: handleWorkItemEvent_try_def status_message_def no_event_data_def
        updateDocument_def client_update_def Let_def ex_env_def empty_engine_def)
  then show ?thesis
    using consumer_acknowledges_every_message
      [of WorkItems ex_env empty_engine "status_message ''wi1'' ''done''"]
    by simp
qed

text \<open>
  Claim C10. A message of the work-item queue whose routing key is none of
  \<open>work_item.created\<close>, \<open>work_item.updated\<close>, \<open>work_item.deleted\<close> and
  \<open>work_item.status_changed\<close> leaves the engine as it was, with no request issued to it
  and no document changed; no error leaves the handler and the message is acknowledged.
  Unless the content fails to parse, no error is raised inside the handler either.
\<close>

theorem unknown_routing_key_noop:
  assumes "routingKey msg \<noteq> ''work_item.created''" and "routingKey msg \<noteq> ''work_item.updated''"
    and "routingKey msg \<noteq> ''work_item.deleted''"
    and "routingKey msg \<noteq> ''work_item.status_changed''"
  shows "consume WorkItems env e (Some msg) = (None, e, [msg])
       \<and> (msg_content msg \<noteq> Unparseable \<longrightarrow> handleWorkItemEvent_try env e msg = (None, e))"
proof -
  have "snd (handleWorkItemEvent_try env e msg) = e"
    using assms by (simp add: handleWorkItemEvent_try_def split: payload.splits)
  moreover have "msg_content msg \<noteq> Unparseable \<longrightarrow> handleWorkItemEvent_try env e msg = (None, e)"
    using assms by (simp add: handleWorkItemEvent_try_def split: payload.splits)
  ultimately show ?thesis
    by (simp add: consume_acks handler_of_WorkItems)
qed

theorem unknown_routing_key_noop_witness:
  "routingKey archived_message \<noteq> ''work_item.created''
   \<and> routingKey archived_message \<noteq> ''work_item.updated''
   \<and> routingKey archived_message \<noteq> ''work_item.deleted''
   \<and> routingKey archived_message \<noteq> ''work_item.status_changed''
   \<and> msg_content archived_message \<noteq> Unparseable
   \<and> handleWorkItemEvent_try unreachable_env empty_engine archived_message = (None, empty_engine)
   \<and> consume WorkItems unreachable_env empty_engine (Some archived_message)
       = (None, empty_engine, [archived_message])"
proof -
  have k: "routingKey archived_message = ''work_item.archived''"
    by (simp add: archived_message_def)
  have c: "msg_content archived_message \<noteq> Unparseable"
    by (simp add: archived_message_def)
  show ?thesis
    using c unknown_routing_key_noop [of archived_message unreachable_env empty_engine]
    by (simp add: k)
qed

end
